theory Spec2Isabelle
  imports Complex_Main "HOL-Library.Multiset"
begin

section \<open>Data model (the interfaces of the types module)\<close>

text \<open>
  A JavaScript \<open>number\<close> holding a coordinate or a distance is modelled as a \<open>real\<close>;
  the elapsed seconds, a counter that only ever grows by one, as a \<open>nat\<close>.
\<close>

record Coordinates =
  latitude :: real
  longitude :: real

record RunMetrics =
  distanceKm :: real
  elapsedTimeSeconds :: nat
  currentPace :: string
  path :: "Coordinates list"
  isTracking :: bool

text \<open>
  \<open>RunHistoryEntry\<close>. The field \<open>id\<close> is called \<open>entryId\<close> here (\<open>id\<close> is the identity
  function of HOL). The field \<open>date\<close> holds an ISO-8601 string written by
  \<open>new Date().toISOString()\<close> and only ever read back through
  \<open>new Date(date).getTime()\<close>; it is represented by the instant it denotes, in
  milliseconds since the epoch.
\<close>

record RunHistoryEntry =
  entryId :: string
  date :: int
  placeName :: string
  metrics :: RunMetrics


section \<open>Decimal rendering of integers\<close>

definition digitChar :: "nat \<Rightarrow> char" where
  "digitChar d = ''0123456789'' ! d"

fun toStringNat :: "nat \<Rightarrow> string" where
  "toStringNat n =
     (if n < 10 then [digitChar n] else toStringNat (n div 10) @ [digitChar (n mod 10)])"

declare toStringNat.simps [simp del]

text \<open>\<open>Number.prototype.toString\<close> on an integer value: a minus sign, then the digits.\<close>

definition toStringInt :: "int \<Rightarrow> string" where
  "toStringInt i = (if i < 0 then CHR ''-'' # toStringNat (nat (- i)) else toStringNat (nat i))"

text \<open>\<open>String.prototype.padStart(2, '0')\<close>.\<close>

definition padStart2 :: "string \<Rightarrow> string" where
  "padStart2 s = replicate (2 - length s) CHR ''0'' @ s"


section \<open>Geodesic calculator\<close>

definition toRad :: "real \<Rightarrow> real" where
  "toRad deg = deg * pi / 180"

text \<open>
  Modelled from the spec: the module \<open>utils/geoUtils\<close> (imported by the tracker
  component, not part of the sources at hand) and its function \<open>calculateDistance\<close>.
  The spec gives the great-circle distance by the haversine formula on a sphere of
  radius 6371 km, with coordinates in decimal degrees. The arithmetic is that of the
  real numbers: rounding of floating-point operations is not part of this model.
\<close>

definition haversine :: "real \<Rightarrow> real \<Rightarrow> real \<Rightarrow> real \<Rightarrow> real" where
  "haversine lat1 lng1 lat2 lng2 =
     (sin (toRad (lat2 - lat1) / 2))\<^sup>2
       + cos (toRad lat1) * cos (toRad lat2) * (sin (toRad (lng2 - lng1) / 2))\<^sup>2"

definition calculateDistance :: "real \<Rightarrow> real \<Rightarrow> real \<Rightarrow> real \<Rightarrow> real" where
  "calculateDistance lat1 lng1 lat2 lng2 =
     6371 * (2 * arcsin (sqrt (haversine lat1 lng1 lat2 lng2)))"

text \<open>
  Modelled from the spec: the function \<open>calculatePace\<close> of the same absent module.
  The sentinel for a distance that is not positive; otherwise seconds per kilometre
  (\<open>elapsedSeconds / distanceKm\<close>), split into whole minutes and the remaining whole
  seconds, both truncated. The spec's data model gives the format as \<open>mm:ss\<close> and its
  example is \<open>06:00\<close>, so both components are padded to two digits.
\<close>

definition calculatePace :: "real \<Rightarrow> nat \<Rightarrow> string" where
  "calculatePace dKm elapsedSeconds =
     (if dKm \<le> 0 then ''--:--''
      else
        let paceSeconds = real elapsedSeconds / dKm;
            minutes = nat \<lfloor>paceSeconds / 60\<rfloor>;
            seconds = nat \<lfloor>paceSeconds - 60 * real minutes\<rfloor>
        in padStart2 (toStringNat minutes) @ '':'' @ padStart2 (toStringNat seconds))"


section \<open>Persistent store\<close>

text \<open>
  The text kept under the key \<open>runHistory\<close> of \<open>localStorage\<close>, by what the two readers
  make of it: the empty text (falsy, so never parsed), text that \<open>JSON.parse\<close> rejects,
  JSON that is neither an array nor a string (an object, a number, a boolean,
  \<open>null\<close>: it cannot be spread and has no \<open>sort\<close>), or the JSON array of entries that
  \<open>JSON.stringify\<close> wrote. \<open>getItem\<close> gives \<open>null\<close>, here \<open>None\<close>, when the key is absent.
\<close>

datatype stored = EmptyText | Unparseable | NotIterable | Entries "RunHistoryEntry list"

datatype exn = SyntaxError | TypeError | QuotaExceededError

text \<open>
  What a save reads from outside the component: \<open>Date.now()\<close> for the id,
  \<open>new Date()\<close> for the date (two readings of the clock), and whether \<open>setItem\<close> accepts
  the write. A \<open>setItem\<close> that throws leaves the stored text as it was.
\<close>

record Env =
  nowId :: int
  nowDate :: int
  writable :: bool

text \<open>
  \<open>existingHistoryStr ? JSON.parse(existingHistoryStr) : []\<close>, then the spread
  \<open>[...history, historyEntry]\<close> of the value read.
\<close>

fun parseHistory :: "stored option \<Rightarrow> exn + RunHistoryEntry list" where
  "parseHistory None = Inr []"
| "parseHistory (Some EmptyText) = Inr []"
| "parseHistory (Some Unparseable) = Inl SyntaxError"
| "parseHistory (Some NotIterable) = Inl TypeError"
| "parseHistory (Some (Entries history)) = Inr history"

definition setItem :: "bool \<Rightarrow> RunHistoryEntry list \<Rightarrow> exn + stored option" where
  "setItem w newHistory = (if w then Inr (Some (Entries newHistory)) else Inl QuotaExceededError)"


section \<open>The tracker component\<close>

text \<open>
  The state of the component that the tracker reads and writes: the two \<open>useState\<close>
  cells \<open>isTracking\<close> (here \<open>isTrackingState\<close>: the metrics have a field of that name
  too) and \<open>runMetrics\<close>, the three refs (\<open>watchIdRef\<close> and \<open>timerIntervalRef\<close> as
  whether they hold a handle), the prop \<open>userCoordinates\<close>, the name of the selected
  place, the stored history and what was written to \<open>console.error\<close>.
\<close>

record Component =
  isTrackingState :: bool
  runMetrics :: RunMetrics
  watchIdRef :: bool
  timerIntervalRef :: bool
  lastLocationRef :: "Coordinates option"
  userCoordinates :: "Coordinates option"
  selectedPlace :: "string option"
  localStorage :: "stored option"
  console :: "exn list"

type_synonym distFn = "real \<Rightarrow> real \<Rightarrow> real \<Rightarrow> real \<Rightarrow> real"
type_synonym paceFn = "real \<Rightarrow> nat \<Rightarrow> string"

definition initialComponent ::
  "Coordinates option \<Rightarrow> string option \<Rightarrow> stored option \<Rightarrow> Component" where
  "initialComponent coords place store =
     \<lparr>isTrackingState = False,
      runMetrics = \<lparr>distanceKm = 0, elapsedTimeSeconds = 0, currentPace = ''--:--'',
                    path = [], isTracking = False\<rparr>,
      watchIdRef = False, timerIntervalRef = False, lastLocationRef = None,
      userCoordinates = coords, selectedPlace = place, localStorage = store, console = []\<rparr>"

text \<open>The entry built in \<open>saveRunToHistory\<close>; an empty name is falsy, as no place is.\<close>

definition historyEntry :: "Env \<Rightarrow> string option \<Rightarrow> RunMetrics \<Rightarrow> RunHistoryEntry" where
  "historyEntry env place m =
     \<lparr>entryId = toStringInt (nowId env),
      date = nowDate env,
      placeName = (case place of None \<Rightarrow> ''Corrida Livre''
                   | Some name \<Rightarrow> if name = [] then ''Corrida Livre'' else name),
      metrics = m\<rparr>"

text \<open>
  \<open>stopTracking\<close> and \<open>saveRunToHistory\<close> are closures of a render: they read the
  state cells \<open>isTracking\<close>, \<open>runMetrics\<close> and \<open>selectedPlace\<close> as that render saw them,
  and the refs and the store as they are when the call runs. The stop button calls the
  closure of the current render. The cleanup of the mount effect (registered with an
  empty dependency list) calls the closure of the first render, which saw the initial
  values of the three cells.
\<close>

record Render =
  renderIsTracking :: bool
  renderRunMetrics :: RunMetrics
  renderSelectedPlace :: "string option"

definition currentRender :: "Component \<Rightarrow> Render" where
  "currentRender c =
     \<lparr>renderIsTracking = isTrackingState c, renderRunMetrics = runMetrics c,
      renderSelectedPlace = selectedPlace c\<rparr>"

definition firstRender :: Render where
  "firstRender =
     \<lparr>renderIsTracking = False,
      renderRunMetrics = \<lparr>distanceKm = 0, elapsedTimeSeconds = 0, currentPace = ''--:--'',
                          path = [], isTracking = False\<rparr>,
      renderSelectedPlace = None\<rparr>"

text \<open>The body of the \<open>try\<close> block: \<open>Inl\<close> is an exception thrown inside it.\<close>

definition saveAttempt :: "Env \<Rightarrow> Render \<Rightarrow> Component \<Rightarrow> exn + stored option" where
  "saveAttempt env r c =
     (case parseHistory (localStorage c) of
        Inl e \<Rightarrow> Inl e
      | Inr history \<Rightarrow>
          setItem (writable env)
            (history @ [historyEntry env (renderSelectedPlace r) (renderRunMetrics r)]))"

text \<open>
  \<open>saveRunToHistory\<close>: the early return, then \<open>try\<close> and \<open>catch\<close>. The result type keeps
  a place for an exception that would leave the function.
\<close>

definition saveRunToHistory :: "Env \<Rightarrow> Render \<Rightarrow> Component \<Rightarrow> exn + Component" where
  "saveRunToHistory env r c =
     (if distanceKm (renderRunMetrics r) = 0 \<and> elapsedTimeSeconds (renderRunMetrics r) = 0
      then Inr c
      else case saveAttempt env r c of
             Inl e \<Rightarrow> Inr (c\<lparr>console := console c @ [e]\<rparr>)
           | Inr store \<Rightarrow> Inr (c\<lparr>localStorage := store\<rparr>))"

definition stopTracking :: "Env \<Rightarrow> Render \<Rightarrow> Component \<Rightarrow> exn + Component" where
  "stopTracking env r c =
     (let c1 = c\<lparr>watchIdRef := False, timerIntervalRef := False\<rparr>
      in case (if renderIsTracking r then saveRunToHistory env r c1 else Inr c1) of
           Inl e \<Rightarrow> Inl e
         | Inr c2 \<Rightarrow> Inr (c2\<lparr>isTrackingState := False\<rparr>))"

text \<open>\<open>startTracking\<close>; the argument says whether \<open>navigator.geolocation\<close> exists.\<close>

definition startTracking :: "bool \<Rightarrow> Component \<Rightarrow> Component" where
  "startTracking geolocation c =
     (if \<not> geolocation then c
      else c\<lparr>isTrackingState := True,
             runMetrics := \<lparr>distanceKm = 0, elapsedTimeSeconds = 0, currentPace = ''--:--'',
                            path = (case userCoordinates c of Some u \<Rightarrow> [u] | None \<Rightarrow> []),
                            isTracking = True\<rparr>,
             lastLocationRef := userCoordinates c,
             timerIntervalRef := True,
             watchIdRef := True\<rparr>)"

text \<open>
  The callback of \<open>setInterval\<close>. The function \<open>calculatePace\<close> it calls lives in the
  absent module, so the callback takes it as a parameter.
\<close>

definition timerTick :: "paceFn \<Rightarrow> Component \<Rightarrow> Component" where
  "timerTick pace c =
     (let prev = runMetrics c; newTime = elapsedTimeSeconds prev + 1
      in c\<lparr>runMetrics := prev\<lparr>elapsedTimeSeconds := newTime,
                                currentPace := pace (distanceKm prev) newTime\<rparr>\<rparr>)"

text \<open>
  The success callback of \<open>watchPosition\<close>, with \<open>calculateDistance\<close> as a parameter
  for the same reason. \<open>onUpdateCoordinates\<close> sets the prop \<open>userCoordinates\<close>.
\<close>

definition onPosition :: "distFn \<Rightarrow> Coordinates \<Rightarrow> Component \<Rightarrow> Component" where
  "onPosition calcDist newCoords c =
     (let c1 = c\<lparr>userCoordinates := Some newCoords\<rparr>
      in case lastLocationRef c1 of
           Some lastLoc \<Rightarrow>
             (let dist = calcDist (latitude lastLoc) (longitude lastLoc)
                                  (latitude newCoords) (longitude newCoords)
              in if dist > 0.005
                 then c1\<lparr>runMetrics := (runMetrics c1)
                            \<lparr>distanceKm := distanceKm (runMetrics c1) + dist,
                             path := path (runMetrics c1) @ [newCoords]\<rparr>,
                         lastLocationRef := Some newCoords\<rparr>
                 else c1)
         | None \<Rightarrow>
             c1\<lparr>lastLocationRef := Some newCoords,
                runMetrics := (runMetrics c1)\<lparr>path := [newCoords]\<rparr>\<rparr>)"

text \<open>
  The events that reach the component. The start button is rendered only while
  \<open>isTracking\<close> is false; the interval and the watch call back only while installed.
  \<open>Locate\<close> is a change of the prop \<open>userCoordinates\<close> from outside the tracker.
  \<open>Stop\<close> is the stop button; \<open>Unmount\<close> is the teardown of the component, which
  runs the cleanup of the mount effect.
\<close>

datatype event =
  Start bool | Tick | Position Coordinates | Stop Env | Locate Coordinates | Unmount Env

fun handle :: "distFn \<Rightarrow> paceFn \<Rightarrow> Component \<Rightarrow> event \<Rightarrow> exn + Component" where
  "handle calcDist pace c (Start geolocation) =
     Inr (if isTrackingState c then c else startTracking geolocation c)"
| "handle calcDist pace c Tick =
     Inr (if timerIntervalRef c then timerTick pace c else c)"
| "handle calcDist pace c (Position p) =
     Inr (if watchIdRef c then onPosition calcDist p c else c)"
| "handle calcDist pace c (Stop env) = stopTracking env (currentRender c) c"
| "handle calcDist pace c (Locate p) = Inr (c\<lparr>userCoordinates := Some p\<rparr>)"
| "handle calcDist pace c (Unmount env) = stopTracking env firstRender c"

fun run :: "distFn \<Rightarrow> paceFn \<Rightarrow> Component \<Rightarrow> event list \<Rightarrow> exn + Component" where
  "run calcDist pace c [] = Inr c"
| "run calcDist pace c (e # es) =
     (case handle calcDist pace c e of
        Inl x \<Rightarrow> Inl x
      | Inr c' \<Rightarrow> run calcDist pace c' es)"

text \<open>No two consecutive points of a path are closer than the threshold of the filter.\<close>

fun noJitter :: "distFn \<Rightarrow> Coordinates list \<Rightarrow> bool" where
  "noJitter calcDist (p # q # ps) =
     (\<not> calcDist (latitude p) (longitude p) (latitude q) (longitude q) < 0.005
      \<and> noJitter calcDist (q # ps))"
| "noJitter calcDist ps = True"

text \<open>
  What the callbacks maintain between them: the path has no jitter, and the last known
  position is the last point of the path (no position known, no point recorded).
\<close>

definition pathInv :: "distFn \<Rightarrow> Component \<Rightarrow> bool" where
  "pathInv calcDist c =
     (noJitter calcDist (path (runMetrics c)) \<and>
      (case lastLocationRef c of
         None \<Rightarrow> path (runMetrics c) = []
       | Some lastLoc \<Rightarrow> path (runMetrics c) \<noteq> [] \<and> last (path (runMetrics c)) = lastLoc))"


section \<open>The history list\<close>

text \<open>
  \<open>loadHistory\<close> of the history component: the list shown starts empty and is set only
  when the stored text is truthy and parses; an exception is caught and logged.
  \<open>Array.prototype.sort\<close> is stable, and the comparator orders by the later date first.
\<close>

definition sortNewestFirst :: "RunHistoryEntry list \<Rightarrow> RunHistoryEntry list" where
  "sortNewestFirst parsed = sort_key (\<lambda>e. - date e) parsed"

fun loadAttempt :: "stored option \<Rightarrow> exn + RunHistoryEntry list" where
  "loadAttempt None = Inr []"
| "loadAttempt (Some EmptyText) = Inr []"
| "loadAttempt (Some Unparseable) = Inl SyntaxError"
| "loadAttempt (Some NotIterable) = Inl TypeError"
| "loadAttempt (Some (Entries parsed)) = Inr (sortNewestFirst parsed)"

definition loadHistory :: "stored option \<Rightarrow> RunHistoryEntry list" where
  "loadHistory store = (case loadAttempt store of Inl e \<Rightarrow> [] | Inr history \<Rightarrow> history)"


section \<open>Properties of the geodesic calculator\<close>

lemma cos_prod:
  fixes u v :: real
  shows "cos (u - v) * cos (u + v) = (cos u)\<^sup>2 - (sin v)\<^sup>2"
proof -
  have su: "(sin u)\<^sup>2 = 1 - (cos u)\<^sup>2" by (rule sin_squared_eq)
  have cv: "(cos v)\<^sup>2 = 1 - (sin v)\<^sup>2" by (rule cos_squared_eq)
  have "cos (u - v) * cos (u + v)
      = (cos u * cos v + sin u * sin v) * (cos u * cos v - sin u * sin v)"
    by (simp only: cos_add cos_diff)
  also have "\<dots> = (cos u)\<^sup>2 * (cos v)\<^sup>2 - (sin u)\<^sup>2 * (sin v)\<^sup>2"
    by (simp add: power2_eq_square algebra_simps)
  also have "\<dots> = (cos u)\<^sup>2 * (1 - (sin v)\<^sup>2) - (1 - (cos u)\<^sup>2) * (sin v)\<^sup>2"
    by (simp only: su cv)
  also have "\<dots> = (cos u)\<^sup>2 - (sin v)\<^sup>2"
    by (simp add: algebra_simps)
  finally show ?thesis .
qed

text \<open>
  The haversine term is a weighted mean of two squares, with the weight
  \<open>sin\<^sup>2 (\<Delta>lng / 2)\<close>: this holds for every latitude, also outside \<open>[-90, 90]\<close>.
\<close>

lemma haversine_alt:
  "haversine lat1 lng1 lat2 lng2 =
     (1 - (sin (toRad (lng2 - lng1) / 2))\<^sup>2) * (sin (toRad (lat2 - lat1) / 2))\<^sup>2
       + (sin (toRad (lng2 - lng1) / 2))\<^sup>2 * (cos (toRad (lat1 + lat2) / 2))\<^sup>2"
proof -
  define u where "u = toRad (lat1 + lat2) / 2"
  define v where "v = toRad (lat2 - lat1) / 2"
  define s where "s = (sin (toRad (lng2 - lng1) / 2))\<^sup>2"
  have l1: "toRad lat1 = u - v" and l2: "toRad lat2 = u + v"
    by (simp_all add: u_def v_def toRad_def field_simps)
  have "haversine lat1 lng1 lat2 lng2 = (sin v)\<^sup>2 + cos (u - v) * cos (u + v) * s"
    by (simp only: haversine_def l1 l2 v_def s_def)
  also have "\<dots> = (sin v)\<^sup>2 + ((cos u)\<^sup>2 - (sin v)\<^sup>2) * s"
    by (simp only: cos_prod)
  also have "\<dots> = (1 - s) * (sin v)\<^sup>2 + s * (cos u)\<^sup>2"
    by (simp add: algebra_simps)
  finally show ?thesis by (simp only: u_def v_def s_def)
qed

lemma haversine_range: "0 \<le> haversine a b c d" "haversine a b c d \<le> 1"
proof -
  let ?s = "(sin (toRad (d - b) / 2))\<^sup>2"
  let ?p = "(sin (toRad (c - a) / 2))\<^sup>2"
  let ?q = "(cos (toRad (a + c) / 2))\<^sup>2"
  have s: "0 \<le> ?s" "?s \<le> 1" by (simp_all add: abs_square_le_1)
  have p: "0 \<le> ?p" "?p \<le> 1" by (simp_all add: abs_square_le_1)
  have q: "0 \<le> ?q" "?q \<le> 1" by (simp_all add: abs_square_le_1)
  have e: "haversine a b c d = (1 - ?s) * ?p + ?s * ?q" by (rule haversine_alt)
  show "0 \<le> haversine a b c d" unfolding e using s p q by simp
  have "(1 - ?s) * ?p \<le> (1 - ?s) * 1" using s p by (intro mult_left_mono) simp_all
  moreover have "?s * ?q \<le> ?s * 1" using s q by (intro mult_left_mono) simp_all
  ultimately show "haversine a b c d \<le> 1" unfolding e by simp
qed

lemma sin_half_swap: "sin (toRad (x - y) / 2) = - sin (toRad (y - x) / 2)"
proof -
  have "toRad (x - y) / 2 = - (toRad (y - x) / 2)"
    by (simp add: toRad_def field_simps)
  then show ?thesis by (simp only: sin_minus)
qed

lemma haversine_sym: "haversine a b c d = haversine c d a b"
  by (simp add: haversine_def sin_half_swap[of a c] sin_half_swap[of b d])

lemma haversine_same: "haversine a b a b = 0"
  by (simp add: haversine_def toRad_def)

text \<open>
  C9. Over the real numbers, the great-circle distance of the spec is never negative,
  is zero from a point to itself, and is the same in both directions, for all
  coordinates (no range of latitude or longitude is assumed).
\<close>

theorem calculateDistance_nonneg_zero_sym:
  "0 \<le> calculateDistance lat1 lng1 lat2 lng2
   \<and> calculateDistance lat1 lng1 lat1 lng1 = 0
   \<and> calculateDistance lat1 lng1 lat2 lng2 = calculateDistance lat2 lng2 lat1 lng1"
proof -
  have "sqrt (haversine lat1 lng1 lat2 lng2) \<in> {0..1}"
    using haversine_range[of lat1 lng1 lat2 lng2] by simp
  then have "0 \<le> arcsin (sqrt (haversine lat1 lng1 lat2 lng2))"
    by (rule arcsin_nonneg)
  then show ?thesis
    by (simp add: calculateDistance_def haversine_same haversine_sym[of lat1 lng1 lat2 lng2])
qed

lemma padStart2_length: "n < 100 \<Longrightarrow> length (padStart2 (toStringNat n)) = 2"
  apply (subst toStringNat.simps)
  apply (subst toStringNat.simps)
  apply (auto simp: padStart2_def)
  done

text \<open>
  C8. \<open>calculatePace\<close> gives the sentinel for every distance that is not positive.
  For a positive distance it gives minutes, a colon and seconds, where the seconds
  are below 60 and fill exactly two characters, and where minutes and seconds are
  the pace \<open>elapsedSeconds / distanceKm\<close> cut down to whole seconds (never rounded up).
  Ten kilometres in 3600 seconds give \<open>06:00\<close>.
\<close>

theorem calculatePace_sentinel_truncates:
  "(dKm \<le> 0 \<longrightarrow> calculatePace dKm t = ''--:--'') \<and>
   (0 < dKm \<longrightarrow>
      (\<exists>m s. calculatePace dKm t = padStart2 (toStringNat m) @ '':'' @ padStart2 (toStringNat s)
         \<and> s < 60 \<and> length (padStart2 (toStringNat s)) = 2
         \<and> real (60 * m + s) \<le> real t / dKm \<and> real t / dKm < real (60 * m + s) + 1))
   \<and> calculatePace 10 3600 = ''06:00''"
proof (intro conjI impI)
  assume "dKm \<le> 0"
  then show "calculatePace dKm t = ''--:--''" by (simp add: calculatePace_def)
next
  assume d: "0 < dKm"
  define p where "p = real t / dKm"
  define m where "m = nat \<lfloor>p / 60\<rfloor>"
  define s where "s = nat \<lfloor>p - 60 * real m\<rfloor>"
  have p0: "0 \<le> p" using d by (simp add: p_def)
  have "0 \<le> \<lfloor>p / 60\<rfloor>" using p0 by simp
  then have mr: "real m = of_int \<lfloor>p / 60\<rfloor>" by (simp add: m_def)
  have m1: "real m \<le> p / 60" "p / 60 < real m + 1"
    unfolding mr by linarith+
  then have r: "0 \<le> p - 60 * real m" "p - 60 * real m < 60" by simp_all
  have "0 \<le> \<lfloor>p - 60 * real m\<rfloor>" using r by simp
  then have sr: "real s = of_int \<lfloor>p - 60 * real m\<rfloor>" by (simp add: s_def)
  have s1: "real s \<le> p - 60 * real m" "p - 60 * real m < real s + 1"
    unfolding sr by linarith+
  have s60: "s < 60" using s1 r by linarith
  have "calculatePace dKm t = padStart2 (toStringNat m) @ '':'' @ padStart2 (toStringNat s)"
    using d by (simp add: calculatePace_def Let_def p_def m_def s_def)
  moreover have "length (padStart2 (toStringNat s)) = 2"
    using s60 by (intro padStart2_length) simp
  moreover have "real (60 * m + s) \<le> p" "p < real (60 * m + s) + 1"
    using s1 by simp_all
  ultimately show "\<exists>m s. calculatePace dKm t
          = padStart2 (toStringNat m) @ '':'' @ padStart2 (toStringNat s)
        \<and> s < 60 \<and> length (padStart2 (toStringNat s)) = 2
        \<and> real (60 * m + s) \<le> real t / dKm \<and> real t / dKm < real (60 * m + s) + 1"
    using s60 unfolding p_def by blast
next
  show "calculatePace 10 3600 = ''06:00''"
    by (simp add: calculatePace_def Let_def padStart2_def toStringNat.simps digitChar_def)
qed

theorem calculatePace_sentinel_truncates_witness:
  "calculatePace 0 7 = ''--:--'' \<and>
   (\<exists>m s. calculatePace 2 725 = padStart2 (toStringNat m) @ '':'' @ padStart2 (toStringNat s)
      \<and> s < 60 \<and> length (padStart2 (toStringNat s)) = 2
      \<and> real (60 * m + s) \<le> real 725 / 2 \<and> real 725 / 2 < real (60 * m + s) + 1)"
  using calculatePace_sentinel_truncates [of 0 7] calculatePace_sentinel_truncates [of 2 725]
  by simp


section \<open>Distances along the equator\<close>

lemma calculateDistance_same: "calculateDistance a b a b = 0"
  by (simp add: calculateDistance_def haversine_same)

text \<open>
  From the origin along the equator the distance is the radius times the angle, which
  gives fixes at exactly five and exactly ten metres from the origin.
\<close>

lemma calculateDistance_equator:
  assumes "0 \<le> \<theta>" "\<theta> \<le> pi"
  shows "calculateDistance 0 0 0 (\<theta> * 180 / pi) = 6371 * \<theta>"
proof -
  have r: "toRad (\<theta> * 180 / pi - 0) / 2 = \<theta> / 2" by (simp add: toRad_def)
  have h: "haversine 0 0 0 (\<theta> * 180 / pi) = (sin (\<theta> / 2))\<^sup>2"
    unfolding haversine_def r by (simp add: toRad_def)
  have "0 \<le> sin (\<theta> / 2)" using assms by (intro sin_ge_zero) simp_all
  then have "sqrt (haversine 0 0 0 (\<theta> * 180 / pi)) = sin (\<theta> / 2)"
    unfolding h by simp
  moreover have "arcsin (sin (\<theta> / 2)) = \<theta> / 2"
    using assms pi_ge_zero by (intro arcsin_sin) linarith+
  ultimately show ?thesis by (simp add: calculateDistance_def)
qed

lemma five_metres: "calculateDistance 0 0 0 (0.9 / (6371 * pi)) = 0.005"
proof -
  have "(0::real) \<le> 0.005 / 6371" by simp
  moreover have "0.005 / 6371 \<le> pi" using pi_ge_two by simp
  ultimately have "calculateDistance 0 0 0 ((0.005 / 6371) * 180 / pi) = 6371 * (0.005 / 6371)"
    by (rule calculateDistance_equator)
  then show ?thesis by simp
qed

lemma ten_metres: "calculateDistance 0 0 0 (1.8 / (6371 * pi)) = 0.01"
proof -
  have "(0::real) \<le> 0.01 / 6371" by simp
  moreover have "0.01 / 6371 \<le> pi" using pi_ge_two by simp
  ultimately have "calculateDistance 0 0 0 ((0.01 / 6371) * 180 / pi) = 6371 * (0.01 / 6371)"
    by (rule calculateDistance_equator)
  then show ?thesis by simp
qed



section \<open>The decimal rendering is injective\<close>

lemma digitChar_inj: "d < 10 \<Longrightarrow> e < 10 \<Longrightarrow> digitChar d = digitChar e \<Longrightarrow> d = e"
proof -
  have v: "\<And>k. k < 10 \<Longrightarrow> (of_char (digitChar k) :: nat) = 48 + k"
  proof -
    fix k :: nat assume "k < 10"
    then have "k \<in> {0, 1, 2, 3, 4, 5, 6, 7, 8, 9}" by auto
    then show "(of_char (digitChar k) :: nat) = 48 + k"
      by (auto simp: digitChar_def)
  qed
  assume a: "d < 10" "e < 10" "digitChar d = digitChar e"
  have "48 + d = (of_char (digitChar d) :: nat)" using v[OF a(1)] by (rule sym)
  also have "\<dots> = of_char (digitChar e)" by (simp only: a(3))
  also have "\<dots> = 48 + e" by (rule v[OF a(2)])
  finally show "d = e" by simp
qed

lemma digitChar_not_minus: "d < 10 \<Longrightarrow> digitChar d \<noteq> CHR ''-''"
proof -
  assume "d < 10"
  then have "d \<in> {0, 1, 2, 3, 4, 5, 6, 7, 8, 9}" by auto
  then show ?thesis by (auto simp: digitChar_def)
qed

lemma toStringNat_nonempty: "toStringNat n \<noteq> []"
  by (subst toStringNat.simps) simp

lemma toStringNat_hd: "hd (toStringNat n) \<noteq> CHR ''-''"
proof (induction n rule: toStringNat.induct)
  case (1 n)
  show ?case
  proof (cases "n < 10")
    case True
    then show ?thesis by (subst toStringNat.simps) (simp add: digitChar_not_minus)
  next
    case False
    then have "hd (toStringNat (n div 10)) \<noteq> CHR ''-''" using 1 by simp
    then show ?thesis using False toStringNat_nonempty[of "n div 10"]
      by (subst toStringNat.simps) simp
  qed
qed

lemma toStringNat_inj: "toStringNat m = toStringNat n \<Longrightarrow> m = n"
proof (induction m arbitrary: n rule: toStringNat.induct)
  case (1 m)
  show ?case
  proof (cases "m < 10")
    case m: True
    show ?thesis
    proof (cases "n < 10")
      case True
      then show ?thesis using m "1.prems"
        by (simp add: toStringNat.simps[of m] toStringNat.simps[of n] digitChar_inj)
    next
      case False
      then show ?thesis using m "1.prems" toStringNat_nonempty[of "n div 10"]
        by (simp add: toStringNat.simps[of m] toStringNat.simps[of n])
    qed
  next
    case m: False
    show ?thesis
    proof (cases "n < 10")
      case True
      then show ?thesis using m "1.prems" toStringNat_nonempty[of "m div 10"]
        by (simp add: toStringNat.simps[of m] toStringNat.simps[of n])
    next
      case False
      then have e: "toStringNat (m div 10) = toStringNat (n div 10)"
        "digitChar (m mod 10) = digitChar (n mod 10)"
        using m "1.prems" by (simp_all add: toStringNat.simps[of m] toStringNat.simps[of n])
      have "m div 10 = n div 10" using "1.IH"[OF m e(1)] .
      moreover have "m mod 10 = n mod 10" using e(2) by (intro digitChar_inj) simp_all
      ultimately show ?thesis by (metis div_mult_mod_eq)
    qed
  qed
qed

lemma toStringInt_inj: "toStringInt i = toStringInt j \<Longrightarrow> i = j"
proof -
  assume a: "toStringInt i = toStringInt j"
  consider "i < 0" "j < 0" | "i < 0" "\<not> j < 0" | "\<not> i < 0" "j < 0" | "\<not> i < 0" "\<not> j < 0"
    by blast
  then show "i = j"
  proof cases
    case 1
    then have "nat (- i) = nat (- j)" using a by (simp add: toStringInt_def toStringNat_inj)
    then show ?thesis using 1 by simp
  next
    case 2
    then have "CHR ''-'' # toStringNat (nat (- i)) = toStringNat (nat j)"
      using a by (simp add: toStringInt_def)
    then have "hd (toStringNat (nat j)) = CHR ''-''" by (metis list.sel(1))
    then show ?thesis using toStringNat_hd by blast
  next
    case 3
    then have "CHR ''-'' # toStringNat (nat (- j)) = toStringNat (nat i)"
      using a by (simp add: toStringInt_def)
    then have "hd (toStringNat (nat i)) = CHR ''-''" by (metis list.sel(1))
    then show ?thesis using toStringNat_hd by blast
  next
    case 4
    then have "nat i = nat j" using a by (simp add: toStringInt_def toStringNat_inj)
    then show ?thesis using 4 by simp
  qed
qed


section \<open>The position callback\<close>

text \<open>
  Away from the threshold: for a fix that arrives while a last known position exists,
  with \<open>d\<close> the distance computed from that position to the fix, a \<open>d\<close> below
  0.005 km leaves distance, path and last known position as they were, and a \<open>d\<close>
  above 0.005 km is added to the distance while the fix is appended to the path and
  becomes the last known position.
\<close>

lemma onPosition_off_threshold:
  assumes "lastLocationRef c = Some lastLoc"
    and "d = calcDist (latitude lastLoc) (longitude lastLoc) (latitude newCoords) (longitude newCoords)"
  shows "(d < 0.005 \<longrightarrow>
            distanceKm (runMetrics (onPosition calcDist newCoords c)) = distanceKm (runMetrics c)
          \<and> path (runMetrics (onPosition calcDist newCoords c)) = path (runMetrics c)
          \<and> lastLocationRef (onPosition calcDist newCoords c) = Some lastLoc)
       \<and> (0.005 < d \<longrightarrow>
            distanceKm (runMetrics (onPosition calcDist newCoords c)) = distanceKm (runMetrics c) + d
          \<and> path (runMetrics (onPosition calcDist newCoords c)) = path (runMetrics c) @ [newCoords]
          \<and> lastLocationRef (onPosition calcDist newCoords c) = Some newCoords)"
  using assms by (simp add: onPosition_def Let_def)

text \<open>
  C1. At the threshold the callback departs from the rule. A fix whose computed
  distance from the last known position is exactly 0.005 km is not below the
  threshold, so the rule (and the comment above the test, which speaks of jumps below
  five metres) has it accepted; the test \<open>dist > 0.005\<close> drops it: distance, path and
  last known position stay as they were, and the fix is not appended. This holds for
  every distance function that returns 0.005 there.
\<close>

theorem onPosition_drops_at_threshold:
  assumes "lastLocationRef c = Some lastLoc"
    and "calcDist (latitude lastLoc) (longitude lastLoc) (latitude newCoords) (longitude newCoords)
           = 0.005"
  shows "\<not> calcDist (latitude lastLoc) (longitude lastLoc) (latitude newCoords) (longitude newCoords)
             < 0.005
       \<and> distanceKm (runMetrics (onPosition calcDist newCoords c)) = distanceKm (runMetrics c)
       \<and> path (runMetrics (onPosition calcDist newCoords c)) = path (runMetrics c)
       \<and> path (runMetrics (onPosition calcDist newCoords c)) \<noteq> path (runMetrics c) @ [newCoords]
       \<and> lastLocationRef (onPosition calcDist newCoords c) = Some lastLoc"
  using assms by (simp add: onPosition_def Let_def)

text \<open>
  With the distance of the spec: from a session seeded at the origin, the fix at
  longitude \<open>0.9 / (6371 \<pi>)\<close> degrees on the equator is exactly 0.005 km away, and the
  callback drops it.
\<close>

theorem onPosition_drops_at_threshold_witness:
  "lastLocationRef (startTracking True (initialComponent (Some \<lparr>latitude = 0, longitude = 0\<rparr>) None None))
     = Some \<lparr>latitude = 0, longitude = 0\<rparr>
   \<and> \<not> calculateDistance 0 0 0 (0.9 / (6371 * pi)) < 0.005
   \<and> path (runMetrics (onPosition calculateDistance \<lparr>latitude = 0, longitude = 0.9 / (6371 * pi)\<rparr>
       (startTracking True (initialComponent (Some \<lparr>latitude = 0, longitude = 0\<rparr>) None None))))
     = [\<lparr>latitude = 0, longitude = 0\<rparr>]
   \<and> distanceKm (runMetrics (onPosition calculateDistance \<lparr>latitude = 0, longitude = 0.9 / (6371 * pi)\<rparr>
       (startTracking True (initialComponent (Some \<lparr>latitude = 0, longitude = 0\<rparr>) None None))))
     = 0
   \<and> lastLocationRef (onPosition calculateDistance \<lparr>latitude = 0, longitude = 0.9 / (6371 * pi)\<rparr>
       (startTracking True (initialComponent (Some \<lparr>latitude = 0, longitude = 0\<rparr>) None None)))
     = Some \<lparr>latitude = 0, longitude = 0\<rparr>"
proof -
  define L :: real where "L = 0.9 / (6371 * pi)"
  define org where "org = \<lparr>latitude = 0, longitude = 0 :: real\<rparr>"
  define c where "c = startTracking True (initialComponent (Some org) None None)"
  have l: "lastLocationRef c = Some org"
    by (simp add: c_def startTracking_def initialComponent_def)
  have m: "distanceKm (runMetrics c) = 0" "path (runMetrics c) = [org]"
    by (simp_all add: c_def startTracking_def initialComponent_def)
  have "calculateDistance 0 0 0 L = 0.005" unfolding L_def by (rule five_metres)
  then have d: "calculateDistance (latitude org) (longitude org)
      (latitude \<lparr>latitude = 0, longitude = L\<rparr>) (longitude \<lparr>latitude = 0, longitude = L\<rparr>) = 0.005"
    by (simp add: org_def)
  have "lastLocationRef c = Some org
      \<and> \<not> calculateDistance 0 0 0 L < 0.005
      \<and> path (runMetrics (onPosition calculateDistance \<lparr>latitude = 0, longitude = L\<rparr> c)) = [org]
      \<and> distanceKm (runMetrics (onPosition calculateDistance \<lparr>latitude = 0, longitude = L\<rparr> c)) = 0
      \<and> lastLocationRef (onPosition calculateDistance \<lparr>latitude = 0, longitude = L\<rparr> c) = Some org"
    using onPosition_drops_at_threshold [where calcDist = calculateDistance and c = c
             and newCoords = "\<lparr>latitude = 0, longitude = L\<rparr>", OF l d] l m
    by (simp add: org_def)
  then show ?thesis unfolding c_def org_def L_def .
qed


section \<open>The invariant of the path\<close>

lemma noJitter_snoc:
  "noJitter calcDist ps \<Longrightarrow> ps \<noteq> [] \<Longrightarrow>
   0.005 < calcDist (latitude (last ps)) (longitude (last ps)) (latitude q) (longitude q) \<Longrightarrow>
   noJitter calcDist (ps @ [q])"
  by (induction calcDist ps rule: noJitter.induct) simp_all

lemma pathInv_initial: "pathInv calcDist (initialComponent coords place store)"
  by (simp add: pathInv_def initialComponent_def)

lemma pathInv_start: "pathInv calcDist (startTracking g c) \<or> startTracking g c = c"
  by (cases "userCoordinates c") (simp_all add: pathInv_def startTracking_def)

lemma pathInv_tick: "pathInv calcDist c \<Longrightarrow> pathInv calcDist (timerTick pace c)"
  by (auto simp: pathInv_def timerTick_def Let_def split: option.splits)

lemma pathInv_position: "pathInv calcDist c \<Longrightarrow> pathInv calcDist (onPosition calcDist p c)"
  by (cases "lastLocationRef c")
     (auto simp: pathInv_def onPosition_def Let_def noJitter_snoc)

lemma stopTracking_total: "\<exists>c'. stopTracking env r c = Inr c'"
  by (simp add: stopTracking_def saveRunToHistory_def Let_def split: sum.splits)

lemma stopTracking_metrics:
  "stopTracking env r c = Inr c' \<Longrightarrow>
     runMetrics c' = runMetrics c \<and> lastLocationRef c' = lastLocationRef c"
  by (auto simp: stopTracking_def saveRunToHistory_def Let_def split: sum.splits if_splits)

lemma pathInv_stop:
  "pathInv calcDist c \<Longrightarrow> stopTracking env r c = Inr c' \<Longrightarrow> pathInv calcDist c'"
  using stopTracking_metrics[of env r c c'] by (auto simp: pathInv_def split: option.splits)

lemma pathInv_handle:
  "pathInv calcDist c \<Longrightarrow> handle calcDist pace c e = Inr c' \<Longrightarrow> pathInv calcDist c'"
proof (cases e)
  case (Start g)
  assume "pathInv calcDist c" "handle calcDist pace c e = Inr c'"
  then show ?thesis using Start pathInv_start[of calcDist g c] by (auto split: if_splits)
next
  case Tick
  assume "pathInv calcDist c" "handle calcDist pace c e = Inr c'"
  then show ?thesis using Tick by (auto simp: pathInv_tick split: if_splits)
next
  case (Position p)
  assume "pathInv calcDist c" "handle calcDist pace c e = Inr c'"
  then show ?thesis using Position by (auto simp: pathInv_position split: if_splits)
next
  case (Stop env)
  assume "pathInv calcDist c" "handle calcDist pace c e = Inr c'"
  then show ?thesis using Stop by (auto intro: pathInv_stop)
next
  case (Locate p)
  assume "pathInv calcDist c" "handle calcDist pace c e = Inr c'"
  then show ?thesis using Locate by (auto simp: pathInv_def split: option.splits)
next
  case (Unmount env)
  assume "pathInv calcDist c" "handle calcDist pace c e = Inr c'"
  then show ?thesis using Unmount by (auto intro: pathInv_stop)
qed

lemma pathInv_run:
  "pathInv calcDist c \<Longrightarrow> run calcDist pace c es = Inr c' \<Longrightarrow> pathInv calcDist c'"
proof (induction es arbitrary: c)
  case Nil
  then show ?case by simp
next
  case (Cons e es)
  then obtain c1 where h: "handle calcDist pace c e = Inr c1" and r: "run calcDist pace c1 es = Inr c'"
    by (auto split: sum.splits)
  from Cons.prems(1) h have "pathInv calcDist c1" by (rule pathInv_handle)
  then show ?case using r by (rule Cons.IH)
qed

text \<open>No event makes the component throw: every sequence of events leads to a state.\<close>

lemma handle_total: "\<exists>c'. handle calcDist pace c e = Inr c'"
  by (cases e) (simp_all add: stopTracking_total)

lemma run_total: "\<exists>c'. run calcDist pace c es = Inr c'"
proof (induction es arbitrary: c)
  case Nil
  show ?case by simp
next
  case (Cons e es)
  obtain c1 where "handle calcDist pace c e = Inr c1" using handle_total by blast
  then show ?case using Cons.IH[of c1] by simp
qed

lemma handle_monotone:
  assumes "pathInv calcDist c" "isTrackingState c" "handle calcDist pace c e = Inr c'"
  shows "distanceKm (runMetrics c) \<le> distanceKm (runMetrics c')
       \<and> (\<exists>ps. path (runMetrics c') = path (runMetrics c) @ ps)"
proof (cases e)
  case (Start g)
  then show ?thesis using assms by auto
next
  case Tick
  then show ?thesis using assms by (auto simp: timerTick_def Let_def split: if_splits)
next
  case (Position p)
  then show ?thesis using assms
    by (cases "lastLocationRef c")
       (auto simp: onPosition_def Let_def pathInv_def split: if_splits)
next
  case (Stop env)
  then show ?thesis using assms stopTracking_metrics[of env "currentRender c" c c'] by auto
next
  case (Locate p)
  then show ?thesis using assms by auto
next
  case (Unmount env)
  then show ?thesis using assms stopTracking_metrics[of env firstRender c c'] by auto
qed


text \<open>
  C5. In every state the component reaches from its initial state, whatever event
  comes next (start, timer tick, position fix, stop, or a change of the ambient
  coordinates), the path afterwards has no two consecutive points closer than
  0.005 km; and while the component is tracking, the event does not lower the
  distance and only appends to the path.
\<close>

theorem tracker_invariant:
  assumes "run calcDist pace (initialComponent coords place store) es = Inr c"
    and "handle calcDist pace c e = Inr c'"
  shows "noJitter calcDist (path (runMetrics c'))
       \<and> (isTrackingState c \<longrightarrow>
            distanceKm (runMetrics c) \<le> distanceKm (runMetrics c')
          \<and> (\<exists>ps. path (runMetrics c') = path (runMetrics c) @ ps))"
proof -
  have i: "pathInv calcDist c" using pathInv_initial assms(1) by (rule pathInv_run)
  then have "pathInv calcDist c'" using assms(2) by (rule pathInv_handle)
  then have "noJitter calcDist (path (runMetrics c'))" by (simp add: pathInv_def)
  then show ?thesis using handle_monotone[OF i _ assms(2)] by blast
qed

theorem tracker_invariant_witness:
  "case run calculateDistance calculatePace
          (initialComponent (Some \<lparr>latitude = 0, longitude = 0\<rparr>) None None) [Start True, Tick] of
     Inl x \<Rightarrow> False
   | Inr c \<Rightarrow>
       (case handle calculateDistance calculatePace c
               (Position \<lparr>latitude = 0, longitude = 1.8 / (6371 * pi)\<rparr>) of
          Inl x \<Rightarrow> False
        | Inr c' \<Rightarrow>
            isTrackingState c
          \<and> noJitter calculateDistance (path (runMetrics c'))
          \<and> distanceKm (runMetrics c) \<le> distanceKm (runMetrics c')
          \<and> path (runMetrics c') = path (runMetrics c) @ [\<lparr>latitude = 0, longitude = 1.8 / (6371 * pi)\<rparr>])"
proof -
  define L :: real where "L = 1.8 / (6371 * pi)"
  define c0 where "c0 = initialComponent (Some \<lparr>latitude = 0, longitude = 0\<rparr>) None None"
  define c where "c = timerTick calculatePace (startTracking True c0)"
  define c' where "c' = onPosition calculateDistance \<lparr>latitude = 0, longitude = L\<rparr> c"
  have d: "calculateDistance 0 0 0 L = 0.01" unfolding L_def by (rule ten_metres)
  have r: "run calculateDistance calculatePace c0 [Start True, Tick] = Inr c"
    by (simp add: c_def c0_def initialComponent_def startTracking_def timerTick_def Let_def)
  have t: "isTrackingState c" "watchIdRef c"
    by (simp_all add: c_def c0_def initialComponent_def startTracking_def timerTick_def Let_def)
  have h: "handle calculateDistance calculatePace c (Position \<lparr>latitude = 0, longitude = L\<rparr>) = Inr c'"
    using t by (simp add: c'_def)
  have p: "path (runMetrics c') = path (runMetrics c) @ [\<lparr>latitude = 0, longitude = L\<rparr>]"
    by (simp add: c'_def c_def c0_def onPosition_def initialComponent_def startTracking_def
        timerTick_def Let_def d)
  have "case run calculateDistance calculatePace c0 [Start True, Tick] of
     Inl x \<Rightarrow> False
   | Inr c \<Rightarrow>
       (case handle calculateDistance calculatePace c (Position \<lparr>latitude = 0, longitude = L\<rparr>) of
          Inl x \<Rightarrow> False
        | Inr c' \<Rightarrow>
            isTrackingState c
          \<and> noJitter calculateDistance (path (runMetrics c'))
          \<and> distanceKm (runMetrics c) \<le> distanceKm (runMetrics c')
          \<and> path (runMetrics c') = path (runMetrics c) @ [\<lparr>latitude = 0, longitude = L\<rparr>])"
    using tracker_invariant [OF r [unfolded c0_def] h] t(1) p
    by (simp only: r h c0_def[symmetric] sum.case)
  then show ?thesis unfolding c0_def L_def .
qed


section \<open>The timer\<close>

lemmas tracker_defs =
  initialComponent_def startTracking_def timerTick_def stopTracking_def saveRunToHistory_def
  saveAttempt_def setItem_def historyEntry_def currentRender_def firstRender_def Let_def

text \<open>
  C2. A timer tick adds exactly one to the elapsed seconds and sets the pace to
  the pace function applied to the current distance and the new elapsed time; it
  leaves distance and path alone. A session that is started and then receives five
  ticks and no fix has five elapsed seconds, distance zero and the pace \<open>--:--\<close>.
\<close>

theorem timerTick_increments:
  "elapsedTimeSeconds (runMetrics (timerTick pace c)) = elapsedTimeSeconds (runMetrics c) + 1
   \<and> currentPace (runMetrics (timerTick pace c))
       = pace (distanceKm (runMetrics c)) (elapsedTimeSeconds (runMetrics c) + 1)
   \<and> distanceKm (runMetrics (timerTick pace c)) = distanceKm (runMetrics c)
   \<and> path (runMetrics (timerTick pace c)) = path (runMetrics c)
   \<and> (case run calcDist calculatePace (initialComponent coords place store)
               [Start True, Tick, Tick, Tick, Tick, Tick] of
          Inl x \<Rightarrow> False
        | Inr c5 \<Rightarrow>
            elapsedTimeSeconds (runMetrics c5) = 5
          \<and> distanceKm (runMetrics c5) = 0
          \<and> currentPace (runMetrics c5) = ''--:--'')"
  by (simp add: initialComponent_def startTracking_def timerTick_def Let_def calculatePace_def)


section \<open>Stopping and saving\<close>

text \<open>
  C3 (as amended). A stop through the stop button always returns. It leaves the stored
  history as it was when the component is not tracking, or when distance and elapsed
  time are both zero. When the component is tracking and distance or elapsed time is
  not zero, it appends exactly one new entry to the stored history, provided the
  stored text is absent, empty or an array of entries and the write is accepted; with
  stored text that cannot be read, or a write that fails, it persists nothing.
\<close>

theorem stopTracking_persists:
  "\<exists>c'. stopTracking env (currentRender c) c = Inr c'
     \<and> handle calcDist pace c (Stop env) = Inr c'
     \<and> ((\<not> isTrackingState c
           \<or> (distanceKm (runMetrics c) = 0 \<and> elapsedTimeSeconds (runMetrics c) = 0))
          \<longrightarrow> localStorage c' = localStorage c)
     \<and> (isTrackingState c
          \<and> (distanceKm (runMetrics c) \<noteq> 0 \<or> elapsedTimeSeconds (runMetrics c) \<noteq> 0)
          \<longrightarrow> (case parseHistory (localStorage c) of
                 Inl e \<Rightarrow> localStorage c' = localStorage c
               | Inr history \<Rightarrow>
                   if writable env
                   then localStorage c'
                        = Some (Entries (history @ [historyEntry env (selectedPlace c) (runMetrics c)]))
                   else localStorage c' = localStorage c))"
  by (auto simp: stopTracking_def saveRunToHistory_def saveAttempt_def setItem_def
      currentRender_def Let_def split: sum.splits)

theorem stopTracking_persists_witness:
  "(\<exists>c'. stopTracking \<lparr>nowId = 1000, nowDate = 1000, writable = True\<rparr>
            (currentRender (initialComponent None None None))
            (initialComponent None None None) = Inr c'
         \<and> localStorage c' = None)
   \<and> (\<exists>c'. stopTracking \<lparr>nowId = 1000, nowDate = 1000, writable = True\<rparr>
            (currentRender
               (timerTick calculatePace (startTracking True (initialComponent None None None))))
            (timerTick calculatePace (startTracking True (initialComponent None None None))) = Inr c'
         \<and> localStorage c'
           = Some (Entries [\<lparr>entryId = toStringInt 1000, date = 1000, placeName = ''Corrida Livre'',
                 metrics = \<lparr>distanceKm = 0, elapsedTimeSeconds = 1, currentPace = ''--:--'',
                            path = [], isTracking = True\<rparr>\<rparr>]))"
  using stopTracking_persists [of "\<lparr>nowId = 1000, nowDate = 1000, writable = True\<rparr>"
          "initialComponent None None None"]
        stopTracking_persists [of "\<lparr>nowId = 1000, nowDate = 1000, writable = True\<rparr>"
          "timerTick calculatePace (startTracking True (initialComponent None None None))"]
  by (simp add: initialComponent_def startTracking_def timerTick_def historyEntry_def Let_def
      calculatePace_def)

text \<open>
  C3 as stated fails on a store that is corrupt: a tracking session with one elapsed
  second is stopped through the stop button, and no entry is persisted.
\<close>

theorem stopTracking_corrupt_store_counterexample:
  "case run calculateDistance calculatePace (initialComponent None None (Some Unparseable))
          [Start True, Tick] of
     Inl x \<Rightarrow> False
   | Inr c \<Rightarrow>
       isTrackingState c \<and> elapsedTimeSeconds (runMetrics c) = 1
     \<and> (case handle calculateDistance calculatePace c
                 (Stop \<lparr>nowId = 1000, nowDate = 1000, writable = True\<rparr>) of
          Inl x \<Rightarrow> False
        | Inr c' \<Rightarrow> localStorage c' = localStorage c \<and> loadHistory (localStorage c') = [])"
  by (simp add: tracker_defs loadHistory_def)

text \<open>
  The teardown of the component runs the closure of the first render, which saw
  \<open>isTracking\<close> as false: it releases the watch and the timer and never calls
  \<open>saveRunToHistory\<close>, in whatever state the component is.
\<close>

lemma unmount_releases_and_keeps_store:
  "\<exists>c'. handle calcDist pace c (Unmount env) = Inr c'
     \<and> \<not> watchIdRef c' \<and> \<not> timerIntervalRef c'
     \<and> localStorage c' = localStorage c \<and> runMetrics c' = runMetrics c"
  by (simp add: stopTracking_def firstRender_def Let_def)

text \<open>
  C4. The snapshot that is persisted at stop: a session is started, ticks once and is
  stopped on an empty store. The one persisted entry carries \<open>isTracking = True\<close> in
  its metrics: \<open>saveRunToHistory\<close> stores \<open>runMetrics\<close> as it is, and nothing sets
  that field back to false.
\<close>

theorem persisted_snapshot_isTracking:
  "case run calcDist pace (initialComponent coords place None)
          [Start True, Tick, Stop \<lparr>nowId = 1000, nowDate = 1000, writable = True\<rparr>] of
     Inl x \<Rightarrow> False
   | Inr c \<Rightarrow>
       \<not> isTrackingState c
     \<and> map (\<lambda>e. isTracking (metrics e)) (loadHistory (localStorage c)) = [True]"
  by (simp add: tracker_defs loadHistory_def sortNewestFirst_def)

text \<open>
  C7. Neither \<open>saveRunToHistory\<close> nor \<open>stopTracking\<close> ever ends in an exception,
  from whichever render they are called. Stored text that does not parse, and a write
  that fails, both make the body of the \<open>try\<close> block throw; whenever it throws, the
  stored history after the call is the stored history before it.
\<close>

theorem save_errors_are_caught:
  "(\<exists>c'. saveRunToHistory env r c = Inr c'
        \<and> (\<forall>e. saveAttempt env r c = Inl e \<longrightarrow> localStorage c' = localStorage c))
   \<and> (\<exists>c'. stopTracking env r c = Inr c'
        \<and> (localStorage c = Some Unparseable \<or> \<not> writable env
            \<longrightarrow> localStorage c' = localStorage c))
   \<and> (localStorage c = Some Unparseable \<or> \<not> writable env
        \<longrightarrow> (\<exists>e. saveAttempt env r c = Inl e))"
proof (intro conjI)
  show "\<exists>c'. saveRunToHistory env r c = Inr c'
        \<and> (\<forall>e. saveAttempt env r c = Inl e \<longrightarrow> localStorage c' = localStorage c)"
    by (auto simp: saveRunToHistory_def split: sum.splits)
  show "\<exists>c'. stopTracking env r c = Inr c'
        \<and> (localStorage c = Some Unparseable \<or> \<not> writable env
            \<longrightarrow> localStorage c' = localStorage c)"
    by (auto simp: stopTracking_def saveRunToHistory_def saveAttempt_def setItem_def Let_def
        split: sum.splits)
  show "localStorage c = Some Unparseable \<or> \<not> writable env
        \<longrightarrow> (\<exists>e. saveAttempt env r c = Inl e)"
    by (auto simp: saveAttempt_def setItem_def split: sum.splits)
qed

theorem save_errors_are_caught_witness:
  "(\<exists>c'. stopTracking \<lparr>nowId = 1000, nowDate = 1000, writable = True\<rparr>
            (currentRender (timerTick calculatePace
               (startTracking True (initialComponent None None (Some Unparseable)))))
            (timerTick calculatePace
               (startTracking True (initialComponent None None (Some Unparseable)))) = Inr c'
         \<and> localStorage c' = Some Unparseable)
   \<and> (\<exists>c'. stopTracking \<lparr>nowId = 1000, nowDate = 1000, writable = False\<rparr>
            (currentRender (timerTick calculatePace
               (startTracking True (initialComponent None None (Some (Entries []))))))
            (timerTick calculatePace
               (startTracking True (initialComponent None None (Some (Entries []))))) = Inr c'
         \<and> localStorage c' = Some (Entries []))"
  using save_errors_are_caught [of "\<lparr>nowId = 1000, nowDate = 1000, writable = True\<rparr>"
          "currentRender (timerTick calculatePace
             (startTracking True (initialComponent None None (Some Unparseable))))"
          "timerTick calculatePace
             (startTracking True (initialComponent None None (Some Unparseable)))"]
        save_errors_are_caught [of "\<lparr>nowId = 1000, nowDate = 1000, writable = False\<rparr>"
          "currentRender (timerTick calculatePace
             (startTracking True (initialComponent None None (Some (Entries [])))))"
          "timerTick calculatePace
             (startTracking True (initialComponent None None (Some (Entries []))))"]
  by (simp add: initialComponent_def startTracking_def timerTick_def Let_def)

text \<open>
  C10 (as amended). Two saved entries have the same id exactly when the two saves
  read the same value of \<open>Date.now()\<close>: saves at different clock readings get
  different ids, and nothing else keeps ids apart.
\<close>

theorem entryId_equal_iff:
  "entryId (historyEntry env1 place1 m1) = entryId (historyEntry env2 place2 m2)
     \<longleftrightarrow> nowId env1 = nowId env2"
  by (auto simp: historyEntry_def dest: toStringInt_inj)

theorem entryId_equal_iff_witness:
  "entryId (historyEntry \<lparr>nowId = 1000, nowDate = 1000, writable = True\<rparr> None
       \<lparr>distanceKm = 0, elapsedTimeSeconds = 1, currentPace = ''--:--'', path = [], isTracking = True\<rparr>)
   \<noteq> entryId (historyEntry \<lparr>nowId = 1001, nowDate = 1001, writable = True\<rparr> None
       \<lparr>distanceKm = 0, elapsedTimeSeconds = 1, currentPace = ''--:--'', path = [], isTracking = True\<rparr>)"
  using entryId_equal_iff [of "\<lparr>nowId = 1000, nowDate = 1000, writable = True\<rparr>" None
      "\<lparr>distanceKm = 0, elapsedTimeSeconds = 1, currentPace = ''--:--'', path = [], isTracking = True\<rparr>"
      "\<lparr>nowId = 1001, nowDate = 1001, writable = True\<rparr>" None
      "\<lparr>distanceKm = 0, elapsedTimeSeconds = 1, currentPace = ''--:--'', path = [], isTracking = True\<rparr>"]
  by simp

text \<open>
  C10 as stated fails when the clock reads the same millisecond at two saves (a clock
  that was set back): two different sessions are persisted under the same id.
\<close>

theorem entryId_same_clock_counterexample:
  "case run calculateDistance calculatePace (initialComponent None None None)
          [Start True, Tick, Stop \<lparr>nowId = 1000, nowDate = 1000, writable = True\<rparr>,
           Start True, Tick, Tick, Stop \<lparr>nowId = 1000, nowDate = 1000, writable = True\<rparr>] of
     Inl x \<Rightarrow> False
   | Inr c \<Rightarrow>
       map entryId (loadHistory (localStorage c)) = [''1000'', ''1000'']
     \<and> map (\<lambda>e. elapsedTimeSeconds (metrics e)) (loadHistory (localStorage c)) = [1, 2]"
  by (simp add: tracker_defs loadHistory_def sortNewestFirst_def calculatePace_def
      toStringInt_def toStringNat.simps digitChar_def)


section \<open>Loading the history\<close>

lemma sortNewestFirst_sorted: "sorted_wrt (\<lambda>a b. date b \<le> date a) (sortNewestFirst parsed)"
proof -
  have "sorted (map (\<lambda>e. - date e) (sort_key (\<lambda>e. - date e) parsed))"
    by (rule sorted_sort_key)
  then show ?thesis by (simp add: sortNewestFirst_def sorted_map)
qed

lemma loadHistory_sorted: "sorted_wrt (\<lambda>a b. date b \<le> date a) (loadHistory store)"
proof (cases store)
  case None
  then show ?thesis by (simp add: loadHistory_def)
next
  case (Some s)
  then show ?thesis by (cases s) (simp_all add: loadHistory_def sortNewestFirst_sorted)
qed

text \<open>
  C6. \<open>loadHistory\<close> gives the stored entries, each exactly once, with the later date
  first; it gives the empty list when the key is absent and when the stored text is
  empty, does not parse or is not an array. Two stored entries come back as those
  two, the newer one first; so do the entries of two sessions saved on an empty
  store.
\<close>

theorem loadHistory_newest_first:
  "sorted_wrt (\<lambda>a b. date b \<le> date a) (loadHistory store)
   \<and> mset (loadHistory (Some (Entries parsed))) = mset parsed
   \<and> loadHistory None = [] \<and> loadHistory (Some EmptyText) = []
   \<and> loadHistory (Some Unparseable) = [] \<and> loadHistory (Some NotIterable) = []
   \<and> loadHistory (Some (Entries [e1, e2])) = (if date e1 < date e2 then [e2, e1] else [e1, e2])
   \<and> (case run calcDist pace (initialComponent coords place None)
               [Start True, Tick, Stop \<lparr>nowId = i1, nowDate = t1, writable = True\<rparr>,
                Start True, Tick, Stop \<lparr>nowId = i2, nowDate = t2, writable = True\<rparr>] of
          Inl x \<Rightarrow> False
        | Inr c \<Rightarrow>
            map date (loadHistory (localStorage c)) = (if t1 < t2 then [t2, t1] else [t1, t2]))"
proof -
  have "case run calcDist pace (initialComponent coords place None)
               [Start True, Tick, Stop \<lparr>nowId = i1, nowDate = t1, writable = True\<rparr>,
                Start True, Tick, Stop \<lparr>nowId = i2, nowDate = t2, writable = True\<rparr>] of
          Inl x \<Rightarrow> False
        | Inr c \<Rightarrow>
            map date (loadHistory (localStorage c)) = (if t1 < t2 then [t2, t1] else [t1, t2])"
    by (simp add: tracker_defs loadHistory_def sortNewestFirst_def)
  moreover have "loadHistory (Some (Entries [e1, e2]))
      = (if date e1 < date e2 then [e2, e1] else [e1, e2])"
    by (simp add: loadHistory_def sortNewestFirst_def)
  moreover have "mset (loadHistory (Some (Entries parsed))) = mset parsed"
    by (simp add: loadHistory_def sortNewestFirst_def)
  ultimately show ?thesis using loadHistory_sorted[of store]
    by (simp add: loadHistory_def)
qed

end
